theory Spec2Isabelle
  imports Complex_Main
begin

section \<open>Python values and exceptions\<close>

text \<open>
  The payloads of the remote service and the credential document are JSON values as
  Python holds them after decoding: \<open>None\<close>, booleans, integers, strings, lists and
  dictionaries with string keys. A dictionary is an association list that is read with
  \<open>map_of\<close>.
\<close>

datatype json =
    JNull
  | JBool bool
  | JInt int
  | JStr string
  | JList "json list"
  | JDict "(string \<times> json) list"

text \<open>
  The exceptions that the code of \<^verbatim>\<open>setup_hr_db.py\<close> can meet. \<open>RemoteError\<close> stands for
  whatever the Fitbit client library raises (HTTP and authentication failures), with a
  code to tell one failure from another. \<open>IntegrityError\<close>, \<open>DataError\<close> and
  \<open>ProgrammingError\<close> are the exceptions of \<^verbatim>\<open>sqlalchemy.exc\<close>.
\<close>

datatype py_error =
    KeyError
  | IndexError
  | AttributeError
  | TypeError
  | ZeroDivisionError
  | OverflowError
  | IOError
  | IntegrityError
  | DataError
  | ProgrammingError
  | RemoteError nat

type_synonym 'a result = "py_error + 'a"

definition bind_r :: "'a result \<Rightarrow> ('a \<Rightarrow> 'b result) \<Rightarrow> 'b result" where
  "bind_r x f = (case x of Inl e \<Rightarrow> Inl e | Inr v \<Rightarrow> f v)"

text \<open>\<^verbatim>\<open>x[k]\<close> for a string key \<open>k\<close>.\<close>

fun subscript_key :: "json \<Rightarrow> string \<Rightarrow> json result" where
  "subscript_key (JDict kvs) k = (case map_of kvs k of None \<Rightarrow> Inl KeyError | Some v \<Rightarrow> Inr v)"
| "subscript_key _ k = Inl TypeError"

text \<open>
  \<^verbatim>\<open>x[0]\<close>. The keys of a decoded JSON dictionary are strings, so \<open>0\<close> is never one of
  them.
\<close>

fun subscript_0 :: "json \<Rightarrow> json result" where
  "subscript_0 (JList []) = Inl IndexError"
| "subscript_0 (JList (x # xs)) = Inr x"
| "subscript_0 (JStr []) = Inl IndexError"
| "subscript_0 (JStr (c # cs)) = Inr (JStr [c])"
| "subscript_0 (JDict kvs) = Inl KeyError"
| "subscript_0 _ = Inl TypeError"

text \<open>\<^verbatim>\<open>x.get(k)\<close>: only dictionaries have the method; a missing key gives \<open>None\<close>.\<close>

fun get :: "json \<Rightarrow> string \<Rightarrow> json result" where
  "get (JDict kvs) k = Inr (case map_of kvs k of None \<Rightarrow> JNull | Some v \<Rightarrow> v)"
| "get _ k = Inl AttributeError"

text \<open>\<^verbatim>\<open>d[k] = v\<close> on a dictionary.\<close>

fun dict_set :: "string \<Rightarrow> json \<Rightarrow> (string \<times> json) list \<Rightarrow> (string \<times> json) list" where
  "dict_set k v [] = [(k, v)]"
| "dict_set k v ((k', v') # kvs) =
     (if k = k' then (k, v) # kvs else (k', v') # dict_set k v kvs)"

section \<open>Calendar dates\<close>

text \<open>
  A \<^verbatim>\<open>datetime.date\<close> is its proleptic Gregorian ordinal (\<^verbatim>\<open>toordinal()\<close>), the number
  on which Python's own date arithmetic works: \<open>d + timedelta(n)\<close> is \<open>d + n\<close> and
  \<open>(e - s).days\<close> is \<open>e - s\<close>. \<open>ymd2ord\<close> is the library's conversion of year, month and
  day, used for the one date literal of the program.
\<close>

type_synonym date = int

definition is_leap :: "int \<Rightarrow> bool" where
  "is_leap y = (y mod 4 = 0 \<and> (y mod 100 \<noteq> 0 \<or> y mod 400 = 0))"

definition days_before_year :: "int \<Rightarrow> int" where
  "days_before_year y = (y - 1) * 365 + (y - 1) div 4 - (y - 1) div 100 + (y - 1) div 400"

definition days_in_month :: "int \<Rightarrow> int \<Rightarrow> int" where
  "days_in_month y m =
     (if m = 2 then (if is_leap y then 29 else 28)
      else if m = 4 \<or> m = 6 \<or> m = 9 \<or> m = 11 then 30 else 31)"

definition days_before_month :: "int \<Rightarrow> int \<Rightarrow> int" where
  "days_before_month y m = sum_list (map (days_in_month y) [1..m - 1])"

definition ymd2ord :: "int \<Rightarrow> int \<Rightarrow> int \<Rightarrow> date" where
  "ymd2ord y m d = days_before_year y + days_before_month y m + d"

section \<open>The backfill plan\<close>

text \<open>
  \<^verbatim>\<open>
  def daterange(start_date, end_date):
      for n in range(int((end_date - start_date).days) + 1):
          yield start_date + timedelta(n)
  \<close>
  The generator is the list of the dates it yields. \<^verbatim>\<open>range(k)\<close> is empty for \<open>k \<le> 0\<close>,
  which is what \<open>nat\<close> does to a negative count. Every date yielded lies between the two
  arguments, so the addition stays inside the range of \<^verbatim>\<open>datetime.date\<close>.
\<close>

definition daterange :: "date \<Rightarrow> date \<Rightarrow> date list" where
  "daterange start_date end_date =
     map (\<lambda>n. start_date + int n) [0..<nat ((end_date - start_date) + 1)]"

section \<open>The rate limiter\<close>



section \<open>The collaborators and the state of a run\<close>

text \<open>
  The client object of the Fitbit library is what it was constructed from. What the
  library keeps inside it is not modelled: \<^verbatim>\<open>update_tokens\<close> returns the object it was
  given.
\<close>

record fitbit =
  client_id :: json
  client_secret :: json
  access_token :: json
  refresh_token :: json

text \<open>
  The \<^verbatim>\<open>base_date\<close> argument of a fetch is a \<^verbatim>\<open>date\<close> object when it comes from
  \<open>daterange\<close> and the text \<^verbatim>\<open>strftime('%Y-%m-%d')\<close> of a date in the default branch.
\<close>

datatype base_date = AsDate date | AsText date

text \<open>A row of the table \<^verbatim>\<open>fitbit.heart_rate\<close>; \<open>date\<close> is the primary key.\<close>

record heart_rate =
  date :: date
  r_hr :: json
  hr :: json

text \<open>
  What the program does not decide itself: the system clock (\<^verbatim>\<open>date.today()\<close>), the
  store's conversion of a text into a value of its \<^verbatim>\<open>Date\<close> column, and the three calls
  of the remote service (\<^verbatim>\<open>client.sleep()\<close>, \<^verbatim>\<open>client.client.refresh_token()\<close>,
  \<^verbatim>\<open>client.intraday_time_series(...)\<close>).
\<close>

record collab =
  today :: date
  date_in :: "string \<Rightarrow> date option"
  sleep_probe :: "fitbit \<Rightarrow> py_error option"
  remote_refresh :: "fitbit \<Rightarrow> json result"
  intraday_time_series :: "fitbit \<Rightarrow> base_date \<Rightarrow> json result"

text \<open>
  What a run changes: the files (a file is the JSON value that \<^verbatim>\<open>json.load\<close> reads from
  it), the table, and three traces: the clients on which a refresh was called, the
  fetches made with their client, and the exceptions that \<open>main\<close> printed.
\<close>

record world =
  files :: "string \<Rightarrow> json option"
  table :: "heart_rate list"
  refresh_log :: "fitbit list"
  fetch_log :: "(fitbit \<times> base_date) list"
  printed :: "py_error list"

section \<open>Credentials\<close>

text \<open>
  \<^verbatim>\<open>
  def get_tokens(in_file='tokens.json'):
      with open(in_file) as f:
          data = json.load(f)
      return {'CLIENT_ID': data['CLIENT_ID'], 'CLIENT_SECRET': data['CLIENT_SECRET'],
              'REFRESH_TOKEN': data['REFRESH_TOKEN'], 'ACCESS_TOKEN': data['ACCESS_TOKEN']}
  \<close>
\<close>

definition get_tokens :: "string \<Rightarrow> world \<Rightarrow> (string \<times> json) list result" where
  "get_tokens in_file w =
     (case files w in_file of
        None \<Rightarrow> Inl IOError
      | Some data \<Rightarrow>
          bind_r (subscript_key data ''CLIENT_ID'') (\<lambda>cid.
          bind_r (subscript_key data ''CLIENT_SECRET'') (\<lambda>cs.
          bind_r (subscript_key data ''REFRESH_TOKEN'') (\<lambda>rt.
          bind_r (subscript_key data ''ACCESS_TOKEN'') (\<lambda>atok.
            Inr [(''CLIENT_ID'', cid), (''CLIENT_SECRET'', cs),
                 (''REFRESH_TOKEN'', rt), (''ACCESS_TOKEN'', atok)])))))"

text \<open>
  \<^verbatim>\<open>
  def update_tokens(authd_client, tokens, outfile='tokens.json'):
      params = authd_client.client.refresh_token()
      tokens["REFRESH_TOKEN"] = params["refresh_token"]
      tokens["ACCESS_TOKEN"] = params["access_token"]
      with open(outfile, 'w') as out:
          json.dump(tokens, out)
      return authd_client
  \<close>
\<close>

definition update_tokens ::
  "collab \<Rightarrow> fitbit \<Rightarrow> (string \<times> json) list \<Rightarrow> string \<Rightarrow> world \<Rightarrow> fitbit result \<times> world" where
  "update_tokens R authd_client tokens outfile w =
     (let w1 = w\<lparr>refresh_log := refresh_log w @ [authd_client]\<rparr> in
      case remote_refresh R authd_client of
        Inl e \<Rightarrow> (Inl e, w1)
      | Inr params \<Rightarrow>
          (case subscript_key params ''refresh_token'' of
             Inl e \<Rightarrow> (Inl e, w1)
           | Inr rt \<Rightarrow>
               (case subscript_key params ''access_token'' of
                  Inl e \<Rightarrow> (Inl e, w1)
                | Inr atok \<Rightarrow>
                    (Inr authd_client,
                     w1\<lparr>files := (files w1)(outfile \<mapsto>
                           JDict (dict_set ''ACCESS_TOKEN'' atok
                                   (dict_set ''REFRESH_TOKEN'' rt tokens)))\<rparr>))))"

text \<open>
  \<^verbatim>\<open>
  def set_client(tokens_file=None):
      if tokens_file is None:
          tokens_file = 'tokens.json'
      tokens = get_tokens(in_file=tokens_file)
      client = fitbit.Fitbit(tokens['CLIENT_ID'], tokens['CLIENT_SECRET'], oauth2=True,
          access_token=tokens['ACCESS_TOKEN'], refresh_token=tokens['REFRESH_TOKEN'])
      try:
          client.sleep()
      except:
          client = update_tokens(client, tokens)
      return client
  \<close>
  The bare \<^verbatim>\<open>except\<close> takes every exception of the probe; \<open>update_tokens\<close> is called with
  its default \<open>outfile\<close>.
\<close>

definition set_client :: "collab \<Rightarrow> string option \<Rightarrow> world \<Rightarrow> fitbit result \<times> world" where
  "set_client R tokens_file w =
     (let tokens_file' = (case tokens_file of None \<Rightarrow> ''tokens.json'' | Some f \<Rightarrow> f) in
      case get_tokens tokens_file' w of
        Inl e \<Rightarrow> (Inl e, w)
      | Inr tokens \<Rightarrow>
          (case bind_r (subscript_key (JDict tokens) ''CLIENT_ID'') (\<lambda>cid.
                bind_r (subscript_key (JDict tokens) ''CLIENT_SECRET'') (\<lambda>cs.
                bind_r (subscript_key (JDict tokens) ''ACCESS_TOKEN'') (\<lambda>atok.
                bind_r (subscript_key (JDict tokens) ''REFRESH_TOKEN'') (\<lambda>rt.
                  Inr \<lparr>client_id = cid, client_secret = cs,
                       access_token = atok, refresh_token = rt\<rparr>)))) of
             Inl e \<Rightarrow> (Inl e, w)
           | Inr client \<Rightarrow>
               (case sleep_probe R client of
                  None \<Rightarrow> (Inr client, w)
                | Some e \<Rightarrow> update_tokens R client tokens ''tokens.json'' w)))"

section \<open>The watermark\<close>

text \<open>
  \<^verbatim>\<open>
  def get_most_recent_date(session, obj,):
      try:
          d = session.query(obj).order_by(desc(obj.date)).first()
          return d.date
      except AttributeError:
          return date(2015, 12, 26)
  \<close>
  \<open>first_desc\<close> is the query: the row with the greatest date, \<open>None\<close> when the table has
  no row. \<open>attr_date\<close> is the attribute access \<^verbatim>\<open>d.date\<close>, which fails on \<open>None\<close>.
\<close>

fun first_desc :: "heart_rate list \<Rightarrow> heart_rate option" where
  "first_desc [] = None"
| "first_desc (r # rs) =
     (case first_desc rs of
        None \<Rightarrow> Some r
      | Some b \<Rightarrow> if date b \<le> date r then Some r else Some b)"

definition attr_date :: "heart_rate option \<Rightarrow> date result" where
  "attr_date d = (case d of None \<Rightarrow> Inl AttributeError | Some r \<Rightarrow> Inr (date r))"

definition get_most_recent_date :: "heart_rate list \<Rightarrow> date result" where
  "get_most_recent_date tbl =
     (case attr_date (first_desc tbl) of
        Inl AttributeError \<Rightarrow> Inr (ymd2ord 2015 12 26)
      | Inl e \<Rightarrow> Inl e
      | Inr d \<Rightarrow> Inr d)"

section \<open>Fetching\<close>

text \<open>
  \<^verbatim>\<open>
  def get_daily_data(client, base_date=None, detail_level='1sec', start_time=None,
                     end_time=None):
      return client.intraday_time_series('activities/heart', base_date=base_date,
          detail_level='1sec', start_time=start_time, end_time=end_time)
  \<close>
  Every call in the program leaves the times at \<open>None\<close>, so a fetch is decided by the
  client and the date.
\<close>

definition get_daily_data :: "collab \<Rightarrow> fitbit \<Rightarrow> base_date \<Rightarrow> world \<Rightarrow> json result \<times> world" where
  "get_daily_data R client bd w =
     (intraday_time_series R client bd, w\<lparr>fetch_log := fetch_log w @ [(client, bd)]\<rparr>)"

text \<open>
  The list comprehension \<^verbatim>\<open>[get_daily_data(client, x) for x in dr]\<close>: the calls are made
  in order, and an exception of one call leaves the comprehension.
\<close>

fun fetch_days :: "collab \<Rightarrow> fitbit \<Rightarrow> date list \<Rightarrow> world \<Rightarrow> json list result \<times> world" where
  "fetch_days R client [] w = (Inr [], w)"
| "fetch_days R client (x # xs) w =
     (case get_daily_data R client (AsDate x) w of
        (Inl e, w') \<Rightarrow> (Inl e, w')
      | (Inr v, w') \<Rightarrow>
          (case fetch_days R client xs w' of
             (Inl e, w'') \<Rightarrow> (Inl e, w'')
           | (Inr vs, w'') \<Rightarrow> (Inr (v # vs), w'')))"

text \<open>
  \<^verbatim>\<open>
  @rate_limited(1)
  def get_intra_hr(client, start_date=None, end_date=None, start_time=None, end_time=None):
      val = []
      if all([start_date, end_date]):
          dr = daterange(start_date, end_date)
          val = [get_daily_data(client, x) for x in dr]
      else:
          dr = date.today() - timedelta(days=1)
          dr = dr.strftime('%Y-%m-%d')
          val.append(get_daily_data(client, dr))
      return val
  \<close>
  A date object is always true, so \<^verbatim>\<open>all([start_date, end_date])\<close> asks whether both are
  given. The decorator only waits before the one call of \<open>get_intra_hr\<close>; waiting is not
  part of the state.
\<close>

definition get_intra_hr ::
  "collab \<Rightarrow> fitbit \<Rightarrow> date option \<Rightarrow> date option \<Rightarrow> world \<Rightarrow> json list result \<times> world" where
  "get_intra_hr R client start_date end_date w =
     (case (start_date, end_date) of
        (Some s, Some e) \<Rightarrow> fetch_days R client (daterange s e) w
      | _ \<Rightarrow>
          (case get_daily_data R client (AsText (today R - 1)) w of
             (Inl e, w') \<Rightarrow> (Inl e, w')
           | (Inr v, w') \<Rightarrow> (Inr [v], w')))"

section \<open>Persistence\<close>

text \<open>
  \<^verbatim>\<open>session.add(obj); session.commit()\<close> on a fresh session: one INSERT, committed on its
  own. A commit that returns has stored the row for good, and a commit that raises has
  stored nothing; the sessions and transactions of the library are not modelled any
  further. The key column refuses \<open>None\<close> (a primary key is not null) and a date that is
  already in the table, both with \<open>IntegrityError\<close>; a text that the store cannot read
  as a date is a \<open>DataError\<close>, and a value of another type a \<open>ProgrammingError\<close>. The two
  other columns keep the values as the program hands them over.
\<close>

definition insert_row :: "collab \<Rightarrow> json \<Rightarrow> json \<Rightarrow> json \<Rightarrow> world \<Rightarrow> unit result \<times> world" where
  "insert_row R dt h r w =
     (case dt of
        JNull \<Rightarrow> (Inl IntegrityError, w)
      | JStr t \<Rightarrow>
          (case date_in R t of
             None \<Rightarrow> (Inl DataError, w)
           | Some d \<Rightarrow>
               if d \<in> date ` set (table w) then (Inl IntegrityError, w)
               else (Inr (), w\<lparr>table := table w @ [\<lparr>date = d, r_hr = r, hr = h\<rparr>]\<rparr>))
      | _ \<Rightarrow> (Inl ProgrammingError, w))"

text \<open>
  \<^verbatim>\<open>
  def add_hr_to_db(data):
      session = session_factory()
      date = data['activities-heart'][0].get('dateTime')
      hr = data.get('activities-heart-intraday').get('dataset')
      r_hr = data.get('activities-heart')[0].get('value').get('restingHeartRate')
      obj = HeartRate(date=date, hr=hr, r_hr=r_hr)
      session.add(obj)
      session.commit()
  \<close>
\<close>

definition payload_date :: "json \<Rightarrow> json result" where
  "payload_date data =
     bind_r (bind_r (subscript_key data ''activities-heart'') subscript_0)
       (\<lambda>x. get x ''dateTime'')"

definition payload_hr :: "json \<Rightarrow> json result" where
  "payload_hr data =
     bind_r (get data ''activities-heart-intraday'') (\<lambda>x. get x ''dataset'')"

definition payload_r_hr :: "json \<Rightarrow> json result" where
  "payload_r_hr data =
     bind_r (bind_r (bind_r (get data ''activities-heart'') subscript_0)
       (\<lambda>x. get x ''value'')) (\<lambda>x. get x ''restingHeartRate'')"

definition add_hr_to_db :: "collab \<Rightarrow> json \<Rightarrow> world \<Rightarrow> unit result \<times> world" where
  "add_hr_to_db R data w =
     (case payload_date data of
        Inl e \<Rightarrow> (Inl e, w)
      | Inr dt \<Rightarrow>
          (case payload_hr data of
             Inl e \<Rightarrow> (Inl e, w)
           | Inr h \<Rightarrow>
               (case payload_r_hr data of
                  Inl e \<Rightarrow> (Inl e, w)
                | Inr r \<Rightarrow> insert_row R dt h r w)))"

section \<open>The run\<close>

text \<open>
  \<^verbatim>\<open>
  def main():
      client = set_client()
      start_date = get_most_recent_date(session_factory(), HeartRate)
      end_date = date.today() - timedelta(days=1)
      x = get_intra_hr(client, start_date=start_date, end_date=end_date)
      for day in x:
          try:
              add_hr_to_db(day)
          except exc.IntegrityError as e:
              print("Integrity error raised.\n{}".format(e))
  \<close>
  \<open>main_loop\<close> is the \<^verbatim>\<open>for\<close> loop: an \<open>IntegrityError\<close> is printed and the loop goes on,
  any other exception leaves the loop and \<open>main\<close>.
\<close>

fun main_loop :: "collab \<Rightarrow> json list \<Rightarrow> world \<Rightarrow> unit result \<times> world" where
  "main_loop R [] w = (Inr (), w)"
| "main_loop R (day # days) w =
     (case add_hr_to_db R day w of
        (Inr u, w') \<Rightarrow> main_loop R days w'
      | (Inl IntegrityError, w') \<Rightarrow>
          main_loop R days (w'\<lparr>printed := printed w' @ [IntegrityError]\<rparr>)
      | (Inl e, w') \<Rightarrow> (Inl e, w'))"

definition main :: "collab \<Rightarrow> world \<Rightarrow> unit result \<times> world" where
  "main R w =
     (case set_client R None w of
        (Inl e, w1) \<Rightarrow> (Inl e, w1)
      | (Inr client, w1) \<Rightarrow>
          (case get_most_recent_date (table w1) of
             Inl e \<Rightarrow> (Inl e, w1)
           | Inr start_date \<Rightarrow>
               (let end_date = today R - 1 in
                case get_intra_hr R client (Some start_date) (Some end_date) w1 of
                  (Inl e, w2) \<Rightarrow> (Inl e, w2)
                | (Inr x, w2) \<Rightarrow> main_loop R x w2)))"

section \<open>Concrete collaborators and payloads\<close>

text \<open>
  For evaluating the program on concrete inputs: a store that reads the ISO form
  \<^verbatim>\<open>yyyy-mm-dd\<close> in which the remote service writes its dates, a payload of the shape the
  service sends, a credential document and a remote service that answers every fetch
  with the payload of the day asked for.
\<close>

definition digit :: "char \<Rightarrow> int option" where
  "digit c = map_of [(CHR ''0'', 0), (CHR ''1'', 1), (CHR ''2'', 2), (CHR ''3'', 3),
     (CHR ''4'', 4), (CHR ''5'', 5), (CHR ''6'', 6), (CHR ''7'', 7), (CHR ''8'', 8),
     (CHR ''9'', 9)] c"

fun digits :: "string \<Rightarrow> int \<Rightarrow> int option" where
  "digits [] acc = Some acc"
| "digits (c # cs) acc = (case digit c of None \<Rightarrow> None | Some d \<Rightarrow> digits cs (10 * acc + d))"

definition iso_date_in :: "string \<Rightarrow> date option" where
  "iso_date_in s =
     (if length s = 10 \<and> s ! 4 = CHR ''-'' \<and> s ! 7 = CHR ''-'' then
        (case (digits (take 4 s) 0, digits (take 2 (drop 5 s)) 0, digits (drop 8 s) 0) of
           (Some y, Some m, Some d) \<Rightarrow>
             if 1 \<le> y \<and> 1 \<le> m \<and> m \<le> 12 \<and> 1 \<le> d \<and> d \<le> days_in_month y m
             then Some (ymd2ord y m d) else None
         | _ \<Rightarrow> None)
      else None)"

definition day_payload :: "string \<Rightarrow> json \<Rightarrow> json" where
  "day_payload d r =
     JDict [(''activities-heart'',
              JList [JDict [(''dateTime'', JStr d),
                            (''value'', JDict [(''restingHeartRate'', r)])]]),
            (''activities-heart-intraday'', JDict [(''dataset'', JList [])])]"


definition tokens_doc :: json where
  "tokens_doc = JDict [(''CLIENT_ID'', JStr ''id''), (''CLIENT_SECRET'', JStr ''secret''),
     (''ACCESS_TOKEN'', JStr ''a0''), (''REFRESH_TOKEN'', JStr ''r0'')]"

definition client0 :: fitbit where
  "client0 = \<lparr>client_id = JStr ''id'', client_secret = JStr ''secret'',
               access_token = JStr ''a0'', refresh_token = JStr ''r0''\<rparr>"

definition world0 :: "heart_rate list \<Rightarrow> world" where
  "world0 tbl = \<lparr>files = [''tokens.json'' \<mapsto> tokens_doc], table = tbl,
                  refresh_log = [], fetch_log = [], printed = []\<rparr>"

text \<open>
  The days of the examples: 2016-01-31 is day 735994, 2016-02-01 is day 735995 and
  2016-02-02 is day 735996.
\<close>

definition serve_day :: "base_date \<Rightarrow> json result" where
  "serve_day bd =
     (if bd = AsDate 735994 then Inr (day_payload ''2016-01-31'' (JInt 57))
      else if bd = AsDate 735995 then Inr (day_payload ''2016-02-01'' (JInt 58))
      else Inl (RemoteError 404))"

definition remote0 :: "date \<Rightarrow> collab" where
  "remote0 now = \<lparr>today = now, date_in = iso_date_in, sleep_probe = (\<lambda>c. None),
     remote_refresh = (\<lambda>c. Inl (RemoteError 401)),
     intraday_time_series = (\<lambda>c. serve_day)\<rparr>"

text \<open>
  A remote service that refuses the probe (the access token has expired) and answers the
  refresh call with \<open>refreshed\<close>; its fetches are those of \<open>remote0\<close>.
\<close>

definition remote_expired :: "date \<Rightarrow> json result \<Rightarrow> collab" where
  "remote_expired now refreshed = \<lparr>today = now, date_in = iso_date_in,
     sleep_probe = (\<lambda>c. Some (RemoteError 401)),
     remote_refresh = (\<lambda>c. refreshed),
     intraday_time_series = (\<lambda>c. serve_day)\<rparr>"

definition new_tokens :: json where
  "new_tokens = JDict [(''access_token'', JStr ''a1''), (''expires_in'', JInt 28800),
     (''refresh_token'', JStr ''r1'')]"


section \<open>Properties of the plan\<close>

lemma length_daterange: "length (daterange s e) = nat (e - s + 1)"
  by (simp add: daterange_def)

lemma nth_daterange: "i < length (daterange s e) \<Longrightarrow> daterange s e ! i = s + int i"
  by (simp add: daterange_def)

lemma set_daterange: "set (daterange s e) = {s..e}"
proof (rule set_eqI)
  fix x
  show "x \<in> set (daterange s e) \<longleftrightarrow> x \<in> {s..e}"
  proof
    assume "x \<in> set (daterange s e)"
    then obtain n where "x = s + int n" "n < nat (e - s + 1)"
      by (auto simp: daterange_def)
    then show "x \<in> {s..e}" by auto
  next
    assume "x \<in> {s..e}"
    then have "nat (x - s) < nat (e - s + 1)" "x = s + int (nat (x - s))" by auto
    then show "x \<in> set (daterange s e)"
      unfolding daterange_def by (metis (no_types, lifting) atLeast0LessThan imageI lessThan_iff list.set_map set_upt)
  qed
qed

lemma sorted_daterange: "sorted_wrt (<) (daterange s e)"
  by (simp add: daterange_def sorted_wrt_map sorted_wrt_iff_nth_less)

text \<open>
  C3. When \<open>start_date \<le> end_date\<close>, \<open>daterange\<close> yields \<open>(end_date - start_date).days + 1\<close>
  dates: the first is \<open>start_date\<close>, the last is \<open>end_date\<close>, the date at position \<open>i\<close> is
  \<open>start_date\<close> plus \<open>i\<close> days (contiguous days, no gap), they ascend strictly and none
  occurs twice.
\<close>

theorem daterange_inclusive_ascending:
  assumes "start_date \<le> end_date"
  shows "int (length (daterange start_date end_date)) = (end_date - start_date) + 1
       \<and> hd (daterange start_date end_date) = start_date
       \<and> last (daterange start_date end_date) = end_date
       \<and> (\<forall>i < length (daterange start_date end_date).
             daterange start_date end_date ! i = start_date + int i)
       \<and> sorted_wrt (<) (daterange start_date end_date)
       \<and> distinct (daterange start_date end_date)
       \<and> set (daterange start_date end_date) = {start_date..end_date}"
proof -
  let ?xs = "daterange start_date end_date"
  have len: "length ?xs = nat (end_date - start_date + 1)" by (rule length_daterange)
  with assms have pos: "0 < length ?xs" by simp
  have "hd ?xs = ?xs ! 0" using pos by (simp add: hd_conv_nth)
  then have h: "hd ?xs = start_date" using pos by (simp add: nth_daterange)
  have "last ?xs = ?xs ! (length ?xs - 1)" using pos by (simp add: last_conv_nth)
  also have "\<dots> = start_date + int (length ?xs - 1)" using pos by (simp add: nth_daterange)
  also have "\<dots> = end_date" using assms len by simp
  finally have l: "last ?xs = end_date" .
  have d: "distinct ?xs"
    using sorted_daterange [of start_date end_date] by (simp add: strict_sorted_iff)
  show ?thesis
    using assms len h l d sorted_daterange set_daterange nth_daterange by simp
qed

theorem daterange_inclusive_ascending_witness:
  "daterange 735958 735960 = [735958, 735959, 735960]
   \<and> int (length (daterange 735958 735960)) = (735960 - 735958) + 1
   \<and> sorted_wrt (<) (daterange 735958 735960)
   \<and> distinct (daterange 735958 735960)"
proof -
  have le: "(735958::int) \<le> 735960" by simp
  have "daterange 735958 735960 = [735958, 735959, 735960]"
    by (simp add: daterange_def upt_conv_Cons)
  then show ?thesis using daterange_inclusive_ascending [OF le] by simp
qed

text \<open>
  C4. When \<open>start_date > end_date\<close>, \<open>daterange\<close> yields nothing: the count handed to
  \<^verbatim>\<open>range\<close> is zero or negative, the loop body never runs and nothing is raised.
\<close>

theorem daterange_empty_when_reversed:
  assumes "end_date < start_date"
  shows "daterange start_date end_date = []"
  using assms by (simp add: daterange_def)

theorem daterange_empty_when_reversed_witness:
  "(735957::int) < 735958 \<and> daterange 735958 735957 = [] \<and> daterange 735958 700000 = []"
  using daterange_empty_when_reversed [of 735957 735958]
        daterange_empty_when_reversed [of 700000 735958]
  by simp

section \<open>Properties of the watermark\<close>

lemma ymd2ord_default: "ymd2ord 2015 12 26 = 735958"
  by (simp add: ymd2ord_def days_before_year_def days_before_month_def days_in_month_def
      is_leap_def upto.simps)

lemma first_desc_max:
  "tbl \<noteq> [] \<Longrightarrow> \<exists>r. first_desc tbl = Some r \<and> r \<in> set tbl \<and> date r = Max (date ` set tbl)"
proof (induction tbl)
  case Nil
  then show ?case by simp
next
  case (Cons a tbl)
  show ?case
  proof (cases "tbl = []")
    case True
    then show ?thesis by simp
  next
    case False
    with Cons.IH obtain b where b: "first_desc tbl = Some b" "b \<in> set tbl"
      "date b = Max (date ` set tbl)" by blast
    have fin: "finite (date ` set tbl)" "date ` set tbl \<noteq> {}" using False by auto
    have "Max (date ` set (a # tbl)) = max (date a) (Max (date ` set tbl))"
      using fin by simp
    with b show ?thesis by (auto simp: max_def)
  qed
qed

lemma get_most_recent_date_empty: "get_most_recent_date [] = Inr (ymd2ord 2015 12 26)"
  by (simp add: get_most_recent_date_def attr_date_def)

lemma get_most_recent_date_nonempty:
  "tbl \<noteq> [] \<Longrightarrow> get_most_recent_date tbl = Inr (Max (date ` set tbl))"
  using first_desc_max [of tbl] by (auto simp: get_most_recent_date_def attr_date_def)

text \<open>
  C5. On a table without rows the query gives \<open>None\<close>, the attribute access raises
  \<open>AttributeError\<close>, and \<open>get_most_recent_date\<close> returns the fixed date
  \<^verbatim>\<open>date(2015, 12, 26)\<close> (day 735958) and no error; on a table with rows it returns the
  greatest stored date.
\<close>

theorem get_most_recent_date_default_or_max:
  "get_most_recent_date [] = Inr (ymd2ord 2015 12 26)
   \<and> ymd2ord 2015 12 26 = 735958
   \<and> (tbl \<noteq> [] \<longrightarrow> get_most_recent_date tbl = Inr (Max (date ` set tbl)))"
  using get_most_recent_date_empty get_most_recent_date_nonempty ymd2ord_default by simp

text \<open>The table of the dates 2015-12-30 (day 735962) and 2016-01-02 (day 735965), in both orders.\<close>

theorem get_most_recent_date_default_or_max_witness:
  "get_most_recent_date [\<lparr>date = 735962, r_hr = JInt 60, hr = JList []\<rparr>,
                         \<lparr>date = 735965, r_hr = JNull, hr = JList []\<rparr>] = Inr 735965
   \<and> get_most_recent_date [\<lparr>date = 735965, r_hr = JNull, hr = JList []\<rparr>,
                           \<lparr>date = 735962, r_hr = JInt 60, hr = JList []\<rparr>] = Inr 735965"
  using get_most_recent_date_default_or_max
          [of "[\<lparr>date = 735962, r_hr = JInt 60, hr = JList []\<rparr>,
                \<lparr>date = 735965, r_hr = JNull, hr = JList []\<rparr>]"]
        get_most_recent_date_default_or_max
          [of "[\<lparr>date = 735965, r_hr = JNull, hr = JList []\<rparr>,
                \<lparr>date = 735962, r_hr = JInt 60, hr = JList []\<rparr>]"]
  by simp

text \<open>
  C6, as stated, fails: \<open>get_most_recent_date\<close> never reads the clock. With the system
  date 2016-02-02 (day 735996) and a table that holds a row of 2016-02-03, it returns
  2016-02-03.
\<close>

theorem get_most_recent_date_future_counterexample:
  "get_most_recent_date [\<lparr>date = 735997, r_hr = JNull, hr = JList []\<rparr>] = Inr 735997
   \<and> today (remote0 735996) < 735997"
  by (simp add: get_most_recent_date_def attr_date_def remote0_def)

text \<open>
  C6, amended. \<open>get_most_recent_date\<close> returns a stored date or the fixed default and
  compares nothing with the clock: its result is not after the system date whenever no
  stored date is after the system date and the system date is not before 2015-12-26.
\<close>

theorem get_most_recent_date_not_after_today:
  assumes "\<forall>r \<in> set tbl. date r \<le> today R" and "ymd2ord 2015 12 26 \<le> today R"
  shows "\<exists>d. get_most_recent_date tbl = Inr d \<and> d \<le> today R"
proof (cases "tbl = []")
  case True
  with assms show ?thesis by (simp add: get_most_recent_date_empty)
next
  case False
  then obtain r where "first_desc tbl = Some r" "r \<in> set tbl"
    using first_desc_max by blast
  with assms show ?thesis by (auto simp: get_most_recent_date_def attr_date_def)
qed

theorem get_most_recent_date_not_after_today_witness:
  "\<exists>d. get_most_recent_date [\<lparr>date = 735995, r_hr = JNull, hr = JList []\<rparr>] = Inr d
        \<and> d \<le> today (remote0 735996)"
  using get_most_recent_date_not_after_today
          [of "[\<lparr>date = 735995, r_hr = JNull, hr = JList []\<rparr>]" "remote0 735996"]
  by (simp add: remote0_def ymd2ord_default)

section \<open>Properties of the rate limiter\<close>




section \<open>Properties of fetching\<close>

lemma daterange_split:
  assumes "s \<le> x" "x \<le> e"
  shows "daterange s e = daterange s x @ daterange (x + 1) e"
proof (rule nth_equalityI)
  show "length (daterange s e) = length (daterange s x @ daterange (x + 1) e)"
    using assms by (simp add: length_daterange)
next
  fix i
  assume i: "i < length (daterange s e)"
  show "daterange s e ! i = (daterange s x @ daterange (x + 1) e) ! i"
  proof (cases "i < length (daterange s x)")
    case True
    then show ?thesis using i by (simp add: nth_append nth_daterange)
  next
    case False
    then have j: "i - length (daterange s x) < length (daterange (x + 1) e)"
      using i assms by (simp add: length_daterange)
    have "(daterange s x @ daterange (x + 1) e) ! i
            = daterange (x + 1) e ! (i - length (daterange s x))"
      using False by (simp add: nth_append)
    also have "\<dots> = x + 1 + int (i - length (daterange s x))"
      using j by (rule nth_daterange)
    also have "\<dots> = s + int i"
      using False assms by (simp add: length_daterange)
    finally show ?thesis using i by (simp add: nth_daterange)
  qed
qed

lemma daterange_snoc:
  assumes "s \<le> x"
  shows "daterange s x = daterange s (x - 1) @ [x]"
proof -
  have "nat (x - s + 1) = Suc (nat (x - s))" using assms by simp
  then show ?thesis using assms by (simp add: daterange_def)
qed

lemma fetch_days_ok:
  assumes "\<forall>x \<in> set xs. intraday_time_series R c (AsDate x) = Inr (f x)"
  shows "fetch_days R c xs w =
           (Inr (map f xs), w\<lparr>fetch_log := fetch_log w @ map (\<lambda>d. (c, AsDate d)) xs\<rparr>)"
  using assms
  by (induction xs arbitrary: w) (simp_all add: get_daily_data_def)

lemma fetch_days_append:
  "fetch_days R c (xs @ ys) w =
     (case fetch_days R c xs w of
        (Inl e, w') \<Rightarrow> (Inl e, w')
      | (Inr vs, w') \<Rightarrow>
          (case fetch_days R c ys w' of
             (Inl e, w'') \<Rightarrow> (Inl e, w'')
           | (Inr us, w'') \<Rightarrow> (Inr (vs @ us), w'')))"
proof (induction xs arbitrary: w)
  case Nil
  then show ?case by (simp split: prod.split sum.split)
next
  case (Cons a xs)
  show ?case
  proof (cases "intraday_time_series R c (AsDate a)")
    case (Inl e)
    then show ?thesis by (simp add: get_daily_data_def)
  next
    case (Inr v)
    then show ?thesis
      by (simp add: get_daily_data_def Cons.IH split: prod.split sum.split)
  qed
qed

lemma fetch_days_fail:
  assumes "\<forall>y \<in> set pre. intraday_time_series R c (AsDate y) = Inr (f y)"
    and "intraday_time_series R c (AsDate x) = Inl err"
  shows "fetch_days R c (pre @ x # post) w =
           (Inl err, w\<lparr>fetch_log := fetch_log w @ map (\<lambda>d. (c, AsDate d)) (pre @ [x])\<rparr>)"
proof -
  have "fetch_days R c pre w =
          (Inr (map f pre), w\<lparr>fetch_log := fetch_log w @ map (\<lambda>d. (c, AsDate d)) pre\<rparr>)"
    using assms(1) by (rule fetch_days_ok)
  then show ?thesis
    using assms(2) by (simp add: fetch_days_append get_daily_data_def)
qed

lemma update_tokens_frame:
  "table (snd (update_tokens R c toks f w)) = table w
   \<and> fetch_log (snd (update_tokens R c toks f w)) = fetch_log w
   \<and> printed (snd (update_tokens R c toks f w)) = printed w"
  by (simp add: update_tokens_def Let_def split: sum.split)

lemma set_client_frame:
  "table (snd (set_client R tf w)) = table w
   \<and> fetch_log (snd (set_client R tf w)) = fetch_log w
   \<and> printed (snd (set_client R tf w)) = printed w"
  by (simp add: set_client_def Let_def update_tokens_frame split: sum.split option.split)

text \<open>
  C2, amended. A fetch that fails is not isolated: when the dates before \<open>x\<close> in the
  range are fetched and the fetch of \<open>x\<close> raises, \<open>get_intra_hr\<close> raises the same
  exception and returns no payload at all, not even those already fetched; the dates
  after \<open>x\<close> are never asked for. In \<open>main\<close> the exception ends the run before anything
  is written to the table.
\<close>

theorem get_intra_hr_stops_at_failed_fetch:
  assumes "start_date \<le> x" and "x \<le> end_date"
    and "\<forall>y \<in> set (daterange start_date (x - 1)). intraday_time_series R client (AsDate y) = Inr (f y)"
    and "intraday_time_series R client (AsDate x) = Inl err"
  shows "get_intra_hr R client (Some start_date) (Some end_date) w =
           (Inl err, w\<lparr>fetch_log := fetch_log w @ map (\<lambda>d. (client, AsDate d)) (daterange start_date x)\<rparr>)
       \<and> (set_client R None w0 = (Inr client, w)
            \<and> get_most_recent_date (table w) = Inr start_date \<and> end_date = today R - 1
          \<longrightarrow> fst (main R w0) = Inl err \<and> table (snd (main R w0)) = table w0)"
proof -
  have "daterange start_date end_date
          = daterange start_date (x - 1) @ x # daterange (x + 1) end_date"
    using assms(1,2) daterange_split [of start_date x end_date] daterange_snoc [of start_date x]
    by simp
  then have g: "get_intra_hr R client (Some start_date) (Some end_date) w =
           (Inl err, w\<lparr>fetch_log := fetch_log w @ map (\<lambda>d. (client, AsDate d)) (daterange start_date x)\<rparr>)"
    using assms fetch_days_fail [of "daterange start_date (x - 1)" R client f x err]
      daterange_snoc [of start_date x]
    by (simp add: get_intra_hr_def)
  show ?thesis
  proof (intro conjI impI)
    show "get_intra_hr R client (Some start_date) (Some end_date) w =
           (Inl err, w\<lparr>fetch_log := fetch_log w @ map (\<lambda>d. (client, AsDate d)) (daterange start_date x)\<rparr>)"
      by (rule g)
  next
    assume a: "set_client R None w0 = (Inr client, w)
            \<and> get_most_recent_date (table w) = Inr start_date \<and> end_date = today R - 1"
    then show "fst (main R w0) = Inl err" using g by (simp add: main_def)
  next
    assume a: "set_client R None w0 = (Inr client, w)
            \<and> get_most_recent_date (table w) = Inr start_date \<and> end_date = today R - 1"
    then have "table w = table w0" using set_client_frame [of R None w0] by simp
    with a show "table (snd (main R w0)) = table w0" using g by (simp add: main_def)
  qed
qed

lemma serve_994: "intraday_time_series (remote0 735996) client0 (AsDate 735994) = Inr (day_payload ''2016-01-31'' (JInt 57))"
  by (simp add: remote0_def serve_day_def)

lemma set_client0: "set_client (remote0 now) None (world0 tbl) = (Inr client0, world0 tbl)"
  by (simp add: set_client_def get_tokens_def world0_def tokens_doc_def bind_r_def remote0_def client0_def)

lemma gmr993: "get_most_recent_date [\<lparr>date = 735993, r_hr = JNull, hr = JList []\<rparr>] = Inr 735993"
  by (simp add: get_most_recent_date_def attr_date_def)

text \<open>
  C2, as stated, fails. The table holds 2016-01-30 (day 735993), the system date is
  2016-02-02, and the remote service has the days 2016-01-31 and 2016-02-01 but fails
  for 2016-01-30. The run asks for 2016-01-30 only and ends with that failure; the two
  days that the service would have answered are never fetched and nothing is stored.
\<close>

theorem fetch_failure_aborts_counterexample:
  "fst (main (remote0 735996) (world0 [\<lparr>date = 735993, r_hr = JNull, hr = JList []\<rparr>]))
     = Inl (RemoteError 404)
   \<and> fetch_log (snd (main (remote0 735996) (world0 [\<lparr>date = 735993, r_hr = JNull, hr = JList []\<rparr>])))
     = [(client0, AsDate 735993)]
   \<and> table (snd (main (remote0 735996) (world0 [\<lparr>date = 735993, r_hr = JNull, hr = JList []\<rparr>])))
     = [\<lparr>date = 735993, r_hr = JNull, hr = JList []\<rparr>]
   \<and> intraday_time_series (remote0 735996) client0 (AsDate 735994)
     = Inr (day_payload ''2016-01-31'' (JInt 57))"
proof -
  have d: "daterange 735993 735995 = [735993, 735994, 735995]"
    by (simp add: daterange_def upt_conv_Cons)
  have "main (remote0 735996) (world0 [\<lparr>date = 735993, r_hr = JNull, hr = JList []\<rparr>])
    = (Inl (RemoteError 404), (world0 [\<lparr>date = 735993, r_hr = JNull, hr = JList []\<rparr>])\<lparr>fetch_log := [(client0, AsDate 735993)]\<rparr>)"
    apply (simp add: main_def set_client0 get_intra_hr_def d get_daily_data_def)
    apply (simp add: world0_def gmr993 remote0_def get_intra_hr_def d get_daily_data_def serve_day_def)
    done
  then show ?thesis by (simp add: serve_994 world0_def)
qed

lemma gmr994: "get_most_recent_date [\<lparr>date = 735994, r_hr = JNull, hr = JList []\<rparr>] = Inr 735994"
  by (simp add: get_most_recent_date_def attr_date_def)

theorem get_intra_hr_stops_at_failed_fetch_witness:
  "get_intra_hr (remote0 735998) client0 (Some 735994) (Some 735997)
       (world0 [\<lparr>date = 735994, r_hr = JNull, hr = JList []\<rparr>]) =
     (Inl (RemoteError 404),
      (world0 [\<lparr>date = 735994, r_hr = JNull, hr = JList []\<rparr>])
        \<lparr>fetch_log := [(client0, AsDate 735994), (client0, AsDate 735995),
                       (client0, AsDate 735996)]\<rparr>)
   \<and> fst (main (remote0 735998) (world0 [\<lparr>date = 735994, r_hr = JNull, hr = JList []\<rparr>]))
       = Inl (RemoteError 404)
   \<and> table (snd (main (remote0 735998) (world0 [\<lparr>date = 735994, r_hr = JNull, hr = JList []\<rparr>])))
       = [\<lparr>date = 735994, r_hr = JNull, hr = JList []\<rparr>]"
proof -
  let ?f = "\<lambda>y::int. if y = 735994 then day_payload ''2016-01-31'' (JInt 57)
                       else day_payload ''2016-02-01'' (JInt 58)"
  let ?w = "world0 [\<lparr>date = 735994, r_hr = JNull, hr = JList []\<rparr>]"
  have d: "daterange 735994 735996 = [735994, 735995, 735996]"
    "daterange 735994 735995 = [735994, 735995]"
    by (simp_all add: daterange_def upt_conv_Cons)
  have h1: "(735994::int) \<le> 735996" and h2: "(735996::int) \<le> 735997" by simp_all
  have h3: "\<forall>y \<in> set (daterange 735994 (735996 - 1)).
          intraday_time_series (remote0 735998) client0 (AsDate y) = Inr (?f y)"
    by (simp add: d remote0_def serve_day_def)
  have h4: "intraday_time_series (remote0 735998) client0 (AsDate 735996)
          = Inl (RemoteError 404)"
    by (simp add: remote0_def serve_day_def)
  have h5: "set_client (remote0 735998) None ?w = (Inr client0, ?w)
            \<and> get_most_recent_date (table ?w) = Inr 735994
            \<and> (735997::int) = today (remote0 735998) - 1"
    by (simp add: set_client0 gmr994) (simp add: world0_def remote0_def gmr994)
  show ?thesis
    using get_intra_hr_stops_at_failed_fetch [OF h1 h2 h3 h4, of ?w ?w] h5
    by (simp add: d) (simp add: world0_def)
qed

section \<open>Properties of persistence\<close>

lemma main_loop_Cons:
  "main_loop R (day # days) w =
     (case add_hr_to_db R day w of
        (Inr u, w') \<Rightarrow> main_loop R days w'
      | (Inl e, w') \<Rightarrow>
          if e = IntegrityError
          then main_loop R days (w'\<lparr>printed := printed w' @ [IntegrityError]\<rparr>)
          else (Inl e, w'))"
  by (simp split: prod.split sum.split py_error.split)

declare main_loop.simps(2) [simp del]


lemma insert_row_result:
  "insert_row R dt h r w = (res, w') \<Longrightarrow>
     (res = Inr () \<and> (\<exists>t d. dt = JStr t \<and> date_in R t = Some d \<and> d \<notin> date ` set (table w)
         \<and> w' = w\<lparr>table := table w @ [\<lparr>date = d, r_hr = r, hr = h\<rparr>]\<rparr>))
     \<or> (\<exists>e. res = Inl e \<and> w' = w)"
  by (auto simp: insert_row_def split: json.splits option.splits if_splits)

lemma add_hr_to_db_error: "add_hr_to_db R day w = (Inl e, w') \<Longrightarrow> w' = w"
  using insert_row_result [of R _ _ _ w "Inl e" w']
  by (auto simp: add_hr_to_db_def split: sum.splits)

lemma add_hr_to_db_ok:
  assumes "add_hr_to_db R day w = (Inr u, w')"
  shows "\<exists>t d h r. payload_date day = Inr (JStr t) \<and> date_in R t = Some d
           \<and> d \<notin> date ` set (table w) \<and> payload_hr day = Inr h \<and> payload_r_hr day = Inr r
           \<and> w' = w\<lparr>table := table w @ [\<lparr>date = d, r_hr = r, hr = h\<rparr>]\<rparr>"
proof -
  from assms obtain dt h r where e: "payload_date day = Inr dt" "payload_hr day = Inr h"
    "payload_r_hr day = Inr r" "insert_row R dt h r w = (Inr u, w')"
    by (auto simp: add_hr_to_db_def split: sum.splits)
  from insert_row_result [OF e(4)] e(1-3) show ?thesis by auto
qed











section \<open>Runs on concrete payloads\<close>















section \<open>Properties of the run\<close>

lemma fetch_days_state:
  "\<exists>n. n \<le> length xs \<and> (xs \<noteq> [] \<longrightarrow> 0 < n)
       \<and> snd (fetch_days R c xs w) =
           w\<lparr>fetch_log := fetch_log w @ map (\<lambda>d. (c, AsDate d)) (take n xs)\<rparr>"
proof (induction xs arbitrary: w)
  case Nil
  show ?case by simp
next
  case (Cons x xs)
  let ?w = "w\<lparr>fetch_log := fetch_log w @ [(c, AsDate x)]\<rparr>"
  show ?case
  proof (cases "intraday_time_series R c (AsDate x)")
    case (Inl e)
    then have "snd (fetch_days R c (x # xs) w) =
        w\<lparr>fetch_log := fetch_log w @ map (\<lambda>d. (c, AsDate d)) (take 1 (x # xs))\<rparr>"
      by (simp add: get_daily_data_def)
    then show ?thesis by (intro exI [of _ 1]) simp
  next
    case (Inr v)
    from Cons.IH [of ?w] obtain n where n: "n \<le> length xs"
      "snd (fetch_days R c xs ?w) =
         ?w\<lparr>fetch_log := fetch_log ?w @ map (\<lambda>d. (c, AsDate d)) (take n xs)\<rparr>"
      by blast
    have "snd (fetch_days R c (x # xs) w) = snd (fetch_days R c xs ?w)"
      using Inr by (simp add: get_daily_data_def split: prod.split sum.split)
    with n(2) have "snd (fetch_days R c (x # xs) w) =
        w\<lparr>fetch_log := fetch_log w @ map (\<lambda>d. (c, AsDate d)) (take (Suc n) (x # xs))\<rparr>"
      by simp
    with n(1) show ?thesis by (intro exI [of _ "Suc n"]) simp
  qed
qed

lemma add_hr_to_db_frame:
  "fetch_log (snd (add_hr_to_db R day w)) = fetch_log w
   \<and> refresh_log (snd (add_hr_to_db R day w)) = refresh_log w
   \<and> files (snd (add_hr_to_db R day w)) = files w"
proof (cases "add_hr_to_db R day w")
  case (Pair res w')
  show ?thesis
  proof (cases res)
    case (Inl e)
    with Pair have "w' = w" using add_hr_to_db_error by blast
    with Pair show ?thesis by simp
  next
    case (Inr u)
    with Pair add_hr_to_db_ok [of R day w u w'] show ?thesis by auto
  qed
qed

lemma main_loop_frame:
  "fetch_log (snd (main_loop R days w)) = fetch_log w
   \<and> refresh_log (snd (main_loop R days w)) = refresh_log w
   \<and> files (snd (main_loop R days w)) = files w"
proof (induction days arbitrary: w)
  case Nil
  show ?case by simp
next
  case (Cons a days)
  obtain res w' where a: "add_hr_to_db R a w = (res, w')" by (cases "add_hr_to_db R a w")
  with add_hr_to_db_frame [of R a w]
  have f: "fetch_log w' = fetch_log w" "refresh_log w' = refresh_log w" "files w' = files w"
    by simp_all
  show ?case
    using a f Cons.IH [of w'] Cons.IH [of "w'\<lparr>printed := printed w' @ [IntegrityError]\<rparr>"]
    by (cases res) (simp_all add: main_loop_Cons)
qed





section \<open>Properties of the credential refresh\<close>

lemma get_most_recent_date_total: "\<exists>d. get_most_recent_date tbl = Inr d"
  using get_most_recent_date_empty get_most_recent_date_nonempty by (cases "tbl = []") auto

lemma main_after_client:
  assumes "set_client R None w = (Inr c, w1)"
  shows "\<exists>ds. fetch_log (snd (main R w)) = fetch_log w1 @ map (\<lambda>d. (c, AsDate d)) ds
            \<and> refresh_log (snd (main R w)) = refresh_log w1
            \<and> files (snd (main R w)) = files w1"
proof -
  obtain s where s: "get_most_recent_date (table w1) = Inr s"
    using get_most_recent_date_total by blast
  let ?xs = "daterange s (today R - 1)"
  obtain res w2 where r: "fetch_days R c ?xs w1 = (res, w2)"
    by (cases "fetch_days R c ?xs w1")
  from fetch_days_state [of ?xs R c w1] r obtain n where
    n: "w2 = w1\<lparr>fetch_log := fetch_log w1 @ map (\<lambda>d. (c, AsDate d)) (take n ?xs)\<rparr>"
    by auto
  have m: "main R w = (case res of Inl e \<Rightarrow> (Inl e, w2) | Inr x \<Rightarrow> main_loop R x w2)"
    using assms s r by (simp add: main_def get_intra_hr_def)
  have "fetch_log (snd (main R w)) = fetch_log w2 \<and> refresh_log (snd (main R w)) = refresh_log w2
      \<and> files (snd (main R w)) = files w2"
    using m main_loop_frame [of R _ w2] by (cases res) simp_all
  with n show ?thesis by auto
qed

text \<open>
  C9. \<open>main\<close> reads the credentials from \<^verbatim>\<open>tokens.json\<close> and builds the client from
  them. When the probe \<^verbatim>\<open>client.sleep()\<close> raises and the refresh call returns a new
  pair of tokens, the refresh is called exactly once in the run, \<^verbatim>\<open>tokens.json\<close> is
  overwritten with the full record of the four keys in which both tokens are the new
  ones, and every fetch of the run is made with the client that \<open>set_client\<close> returned.
  When the refresh call itself raises, \<open>set_client\<close> and \<open>main\<close> end with that exception,
  after the one refresh call and with the files untouched.
\<close>

theorem set_client_refreshes_once:
  assumes "files w ''tokens.json'' = Some data"
    and "subscript_key data ''CLIENT_ID'' = Inr cid"
    and "subscript_key data ''CLIENT_SECRET'' = Inr cs"
    and "subscript_key data ''REFRESH_TOKEN'' = Inr rt"
    and "subscript_key data ''ACCESS_TOKEN'' = Inr atok"
    and "client = \<lparr>client_id = cid, client_secret = cs, access_token = atok, refresh_token = rt\<rparr>"
    and "sleep_probe R client = Some e0"
  shows "(remote_refresh R client = Inr params
          \<and> subscript_key params ''refresh_token'' = Inr rt'
          \<and> subscript_key params ''access_token'' = Inr atok' \<longrightarrow>
            set_client R None w =
              (Inr client,
               w\<lparr>refresh_log := refresh_log w @ [client],
                  files := (files w)(''tokens.json'' \<mapsto>
                    JDict [(''CLIENT_ID'', cid), (''CLIENT_SECRET'', cs),
                           (''REFRESH_TOKEN'', rt'), (''ACCESS_TOKEN'', atok')])\<rparr>)
          \<and> refresh_log (snd (main R w)) = refresh_log w @ [client]
          \<and> files (snd (main R w)) =
               (files w)(''tokens.json'' \<mapsto>
                    JDict [(''CLIENT_ID'', cid), (''CLIENT_SECRET'', cs),
                           (''REFRESH_TOKEN'', rt'), (''ACCESS_TOKEN'', atok')])
          \<and> (\<exists>ds. fetch_log (snd (main R w)) = fetch_log w @ map (\<lambda>d. (client, AsDate d)) ds))
       \<and> (remote_refresh R client = Inl err \<longrightarrow>
            set_client R None w = (Inl err, w\<lparr>refresh_log := refresh_log w @ [client]\<rparr>)
          \<and> main R w = (Inl err, w\<lparr>refresh_log := refresh_log w @ [client]\<rparr>))"
proof -
  let ?tokens = "[(''CLIENT_ID'', cid), (''CLIENT_SECRET'', cs),
                  (''REFRESH_TOKEN'', rt), (''ACCESS_TOKEN'', atok)]"
  have gt: "get_tokens ''tokens.json'' w = Inr ?tokens"
    using assms(1-5) by (simp add: get_tokens_def bind_r_def)
  have sc: "set_client R None w = update_tokens R client ?tokens ''tokens.json'' w"
    using gt assms(6,7) by (simp add: set_client_def bind_r_def)
  show ?thesis
  proof (intro conjI impI)
    assume a: "remote_refresh R client = Inr params
          \<and> subscript_key params ''refresh_token'' = Inr rt'
          \<and> subscript_key params ''access_token'' = Inr atok'"
    let ?w1 = "w\<lparr>refresh_log := refresh_log w @ [client],
                  files := (files w)(''tokens.json'' \<mapsto>
                    JDict [(''CLIENT_ID'', cid), (''CLIENT_SECRET'', cs),
                           (''REFRESH_TOKEN'', rt'), (''ACCESS_TOKEN'', atok')])\<rparr>"
    from a show s: "set_client R None w = (Inr client, ?w1)"
      by (simp add: sc update_tokens_def)
    from main_after_client [OF s] obtain ds where
      ds: "fetch_log (snd (main R w)) = fetch_log ?w1 @ map (\<lambda>d. (client, AsDate d)) ds"
          "refresh_log (snd (main R w)) = refresh_log ?w1"
          "files (snd (main R w)) = files ?w1"
      by blast
    from ds(2) show "refresh_log (snd (main R w)) = refresh_log w @ [client]" by simp
    from ds(3) show "files (snd (main R w)) =
               (files w)(''tokens.json'' \<mapsto>
                    JDict [(''CLIENT_ID'', cid), (''CLIENT_SECRET'', cs),
                           (''REFRESH_TOKEN'', rt'), (''ACCESS_TOKEN'', atok')])" by simp
    from ds(1) show "\<exists>ds. fetch_log (snd (main R w)) = fetch_log w @ map (\<lambda>d. (client, AsDate d)) ds"
      by auto
  next
    assume a: "remote_refresh R client = Inl err"
    then show s: "set_client R None w = (Inl err, w\<lparr>refresh_log := refresh_log w @ [client]\<rparr>)"
      by (simp add: sc update_tokens_def)
    then show "main R w = (Inl err, w\<lparr>refresh_log := refresh_log w @ [client]\<rparr>)"
      by (simp add: main_def)
  qed
qed

theorem set_client_refreshes_once_witness:
  "set_client (remote_expired 735996 (Inr new_tokens)) None
      (world0 [\<lparr>date = 735995, r_hr = JInt 58, hr = JList []\<rparr>])
     = (Inr client0,
        (world0 [\<lparr>date = 735995, r_hr = JInt 58, hr = JList []\<rparr>])
          \<lparr>refresh_log := [client0],
           files := [''tokens.json'' \<mapsto>
             JDict [(''CLIENT_ID'', JStr ''id''), (''CLIENT_SECRET'', JStr ''secret''),
                    (''REFRESH_TOKEN'', JStr ''r1''), (''ACCESS_TOKEN'', JStr ''a1'')]]\<rparr>)
   \<and> refresh_log (snd (main (remote_expired 735996 (Inr new_tokens))
        (world0 [\<lparr>date = 735995, r_hr = JInt 58, hr = JList []\<rparr>]))) = [client0]
   \<and> files (snd (main (remote_expired 735996 (Inr new_tokens))
        (world0 [\<lparr>date = 735995, r_hr = JInt 58, hr = JList []\<rparr>]))) ''tokens.json''
       = Some (JDict [(''CLIENT_ID'', JStr ''id''), (''CLIENT_SECRET'', JStr ''secret''),
                      (''REFRESH_TOKEN'', JStr ''r1''), (''ACCESS_TOKEN'', JStr ''a1'')])
   \<and> (\<exists>ds. fetch_log (snd (main (remote_expired 735996 (Inr new_tokens))
        (world0 [\<lparr>date = 735995, r_hr = JInt 58, hr = JList []\<rparr>])))
          = map (\<lambda>d. (client0, AsDate d)) ds)
   \<and> main (remote_expired 735996 (Inl (RemoteError 400))) (world0 [])
       = (Inl (RemoteError 400), (world0 [])\<lparr>refresh_log := [client0]\<rparr>)"
proof -
  let ?Ra = "remote_expired 735996 (Inr new_tokens)"
  let ?Rb = "remote_expired 735996 (Inl (RemoteError 400))"
  let ?w = "world0 [\<lparr>date = 735995, r_hr = JInt 58, hr = JList []\<rparr>]"
  have f: "\<And>tbl. files (world0 tbl) ''tokens.json'' = Some tokens_doc"
    by (simp add: world0_def)
  have k: "subscript_key tokens_doc ''CLIENT_ID'' = Inr (JStr ''id'')"
    "subscript_key tokens_doc ''CLIENT_SECRET'' = Inr (JStr ''secret'')"
    "subscript_key tokens_doc ''REFRESH_TOKEN'' = Inr (JStr ''r0'')"
    "subscript_key tokens_doc ''ACCESS_TOKEN'' = Inr (JStr ''a0'')"
    by (simp_all add: tokens_doc_def)
  have c: "client0 = \<lparr>client_id = JStr ''id'', client_secret = JStr ''secret'',
                        access_token = JStr ''a0'', refresh_token = JStr ''r0''\<rparr>"
    by (simp add: client0_def)
  have p: "\<And>x. sleep_probe (remote_expired 735996 x) client0 = Some (RemoteError 401)"
    by (simp add: remote_expired_def)
  have a: "remote_refresh ?Ra client0 = Inr new_tokens
      \<and> subscript_key new_tokens ''refresh_token'' = Inr (JStr ''r1'')
      \<and> subscript_key new_tokens ''access_token'' = Inr (JStr ''a1'')"
    by (simp add: remote_expired_def new_tokens_def)
  have b: "remote_refresh ?Rb client0 = Inl (RemoteError 400)"
    by (simp add: remote_expired_def)
  have fw: "files ?w = [''tokens.json'' \<mapsto> tokens_doc]" "refresh_log ?w = []"
    "fetch_log ?w = []" "refresh_log (world0 []) = []"
    by (simp_all add: world0_def)
  show ?thesis
    using set_client_refreshes_once [OF f [of "[\<lparr>date = 735995, r_hr = JInt 58, hr = JList []\<rparr>]"]
          k c p [of "Inr new_tokens"],
          where params = new_tokens and rt' = "JStr ''r1''" and atok' = "JStr ''a1''"] a
      set_client_refreshes_once [OF f [of "[]"] k c p [of "Inl (RemoteError 400)"],
          where err = "RemoteError 400"] b
    by (simp add: fw)
qed

end
